theory Spec2Isabelle
  imports Complex_Main "HOL-Library.Word" "HOL-Library.Code_Target_Numeral"
begin

section \<open>JavaScript numbers\<close>

text \<open>
  A JavaScript \<^verbatim>\<open>number\<close> is an IEEE 754 binary64 value: a finite value, one of the two
  infinities, or NaN. A finite value is carried as the real number it denotes; the sign
  of zero is not modelled. Every arithmetic result is the exact result rounded to
  binary64: to the nearest value with a 53-bit significand, a tie going to the even
  significand, with the subnormal range below \<open>2\<^sup>-\<^sup>1\<^sup>0\<^sup>2\<^sup>2\<close> and overflow to an infinity
  from \<open>2\<^sup>1\<^sup>0\<^sup>2\<^sup>4\<close> on.
\<close>

datatype jsnum = Fin real | PosInf | NegInf | NaN

text \<open>The integer nearest to \<open>y\<close>, the even one at a tie.\<close>

definition round_even :: "real \<Rightarrow> int" where
  "round_even y =
     (let f = \<lfloor>y\<rfloor>; d = y - of_int f
      in if d < 1 / 2 then f else if 1 / 2 < d then f + 1 else if even f then f else f + 1)"

text \<open>
  The binary exponent of a positive value \<open>x\<close>: the \<open>e\<close> with \<open>2\<^sup>e \<le> x < 2\<^sup>e\<^sup>+\<^sup>1\<close>, found by
  halving from 1 upwards and by doubling below 1.
\<close>

function exp_up :: "real \<Rightarrow> int" where
  "exp_up x = (if x < 2 then 0 else exp_up (x / 2) + 1)"
  by pat_completeness auto
termination
proof (relation "measure (\<lambda>x. nat \<lfloor>x\<rfloor>)")
  fix x :: real
  assume "\<not> x < 2"
  then have "\<lfloor>x / 2\<rfloor> < \<lfloor>x\<rfloor>" "0 < \<lfloor>x\<rfloor>"
    by linarith+
  then show "(x / 2, x) \<in> measure (\<lambda>x. nat \<lfloor>x\<rfloor>)"
    by simp
qed simp

function exp_down :: "real \<Rightarrow> int" where
  "exp_down x = (if x \<le> 0 \<or> 1 \<le> x then 0 else exp_down (2 * x) - 1)"
  by pat_completeness auto
termination
proof (relation "measure (\<lambda>x. nat \<lfloor>1 / x\<rfloor>)")
  fix x :: real
  assume "\<not> (x \<le> 0 \<or> 1 \<le> x)"
  then have x: "0 < x" "x < 1"
    by simp_all
  define y where "y = 1 / x"
  have y: "1 < y"
    using x by (simp add: y_def)
  have h: "1 / (2 * x) = y / 2"
    by (simp add: y_def)
  have "0 < \<lfloor>y\<rfloor>"
    using y by linarith
  moreover have "\<lfloor>y / 2\<rfloor> < \<lfloor>y\<rfloor>"
  proof (cases "y < 2")
    case True
    then have "\<lfloor>y / 2\<rfloor> = 0"
      using y by (simp add: floor_eq_iff)
    with \<open>0 < \<lfloor>y\<rfloor>\<close> show ?thesis
      by simp
  next
    case False
    then show ?thesis
      by linarith
  qed
  ultimately show "(2 * x, x) \<in> measure (\<lambda>x. nat \<lfloor>1 / x\<rfloor>)"
    by (simp add: h y_def [symmetric])
qed simp

declare exp_up.simps [simp del] exp_down.simps [simp del]

definition binary_exponent :: "real \<Rightarrow> int" where
  "binary_exponent x = (if 1 \<le> x then exp_up x else exp_down x)"

text \<open>The exponent of the unit in the last place of the binary64 values around \<open>x\<close>.\<close>

definition ulp_exponent :: "real \<Rightarrow> int" where
  "ulp_exponent x = max (binary_exponent \<bar>x\<bar>) (- 1022) - 52"

definition round_double :: "real \<Rightarrow> real" where
  "round_double x =
     (if x = 0 then 0
      else of_int (round_even (x / 2 powi ulp_exponent x)) * 2 powi ulp_exponent x)"

definition to_double :: "real \<Rightarrow> jsnum" where
  "to_double x =
     (let r = round_double x
      in if 2 ^ 1024 \<le> r then PosInf
         else if r \<le> - (2 ^ 1024) then NegInf
         else Fin r)"

text \<open>\<^verbatim>\<open>a * b\<close>\<close>

fun jmul :: "jsnum \<Rightarrow> jsnum \<Rightarrow> jsnum" where
  "jmul NaN b = NaN"
| "jmul a NaN = NaN"
| "jmul (Fin a) (Fin b) = to_double (a * b)"
| "jmul (Fin a) PosInf = (if a = 0 then NaN else if 0 < a then PosInf else NegInf)"
| "jmul (Fin a) NegInf = (if a = 0 then NaN else if 0 < a then NegInf else PosInf)"
| "jmul PosInf (Fin b) = (if b = 0 then NaN else if 0 < b then PosInf else NegInf)"
| "jmul NegInf (Fin b) = (if b = 0 then NaN else if 0 < b then NegInf else PosInf)"
| "jmul PosInf PosInf = PosInf"
| "jmul PosInf NegInf = NegInf"
| "jmul NegInf PosInf = NegInf"
| "jmul NegInf NegInf = PosInf"

text \<open>\<^verbatim>\<open>a / b\<close>; a zero divisor is taken as \<open>+0\<close>.\<close>

fun jdiv :: "jsnum \<Rightarrow> jsnum \<Rightarrow> jsnum" where
  "jdiv NaN b = NaN"
| "jdiv a NaN = NaN"
| "jdiv (Fin a) (Fin b) =
     (if b = 0 then (if a = 0 then NaN else if 0 < a then PosInf else NegInf)
      else to_double (a / b))"
| "jdiv (Fin a) PosInf = Fin 0"
| "jdiv (Fin a) NegInf = Fin 0"
| "jdiv PosInf (Fin b) = (if 0 \<le> b then PosInf else NegInf)"
| "jdiv NegInf (Fin b) = (if 0 \<le> b then NegInf else PosInf)"
| "jdiv PosInf PosInf = NaN"
| "jdiv PosInf NegInf = NaN"
| "jdiv NegInf PosInf = NaN"
| "jdiv NegInf NegInf = NaN"

text \<open>\<^verbatim>\<open>a <= b\<close> and \<^verbatim>\<open>a >= b\<close>: false as soon as an operand is NaN.\<close>

fun jle :: "jsnum \<Rightarrow> jsnum \<Rightarrow> bool" where
  "jle NaN b = False"
| "jle a NaN = False"
| "jle NegInf b = True"
| "jle a PosInf = True"
| "jle PosInf b = False"
| "jle a NegInf = False"
| "jle (Fin a) (Fin b) = (a \<le> b)"

definition jge :: "jsnum \<Rightarrow> jsnum \<Rightarrow> bool" where
  "jge a b = jle b a"

text \<open>\<^verbatim>\<open>Math.min(a, b)\<close>: NaN when an argument is NaN.\<close>

fun Math_min :: "jsnum \<Rightarrow> jsnum \<Rightarrow> jsnum" where
  "Math_min NaN b = NaN"
| "Math_min a NaN = NaN"
| "Math_min a b = (if jle a b then a else b)"

text \<open>\<open>ToBoolean\<close> on a number: \<open>0\<close> and NaN are falsy. \<^verbatim>\<open>a || b\<close> on numbers.\<close>

fun truthy :: "jsnum \<Rightarrow> bool" where
  "truthy (Fin x) = (x \<noteq> 0)"
| "truthy PosInf = True"
| "truthy NegInf = True"
| "truthy NaN = False"

definition jor :: "jsnum \<Rightarrow> jsnum \<Rightarrow> jsnum" where
  "jor a b = (if truthy a then a else b)"

fun isFinite :: "jsnum \<Rightarrow> bool" where
  "isFinite (Fin x) = True"
| "isFinite PosInf = False"
| "isFinite NegInf = False"
| "isFinite NaN = False"

section \<open>Data model (types/simulation.ts)\<close>

text \<open>
  A JavaScript string is a sequence of UTF-16 code units. \<open>utf16\<close> gives the string of a
  text whose characters are code points below 256, one code unit each.
\<close>

type_synonym jsstring = "16 word list"

definition utf16 :: "string \<Rightarrow> jsstring" where
  "utf16 s = map of_char s"

text \<open>A value of type \<^verbatim>\<open>string | number\<close>.\<close>

datatype jsval = VStr jsstring | VNum jsnum

text \<open>
  \<^verbatim>\<open>SimulationData\<close>. The four numeric fields only ever receive numbers. The two text
  fields are declared \<^verbatim>\<open>string\<close>, but \<^verbatim>\<open>updateSimulationField\<close> stores its
  \<^verbatim>\<open>string | number\<close> argument in them as it comes, so they hold a \<open>jsval\<close>.
\<close>

record SimulationData =
  ebitda :: jsnum
  interestRate :: jsnum
  multiple :: jsnum
  factorScore :: jsnum
  companyName :: jsval
  description :: jsval

datatype FieldToggleStatus = TBD | OK

text \<open>\<^verbatim>\<open>SimulationField = keyof SimulationData\<close>\<close>

datatype SimulationField =
  F_ebitda | F_interestRate | F_multiple | F_factorScore | F_companyName | F_description

record ValuationData =
  amount :: jsnum
  percentage :: jsnum
  maxValuation :: jsnum

section \<open>Valuation (utils/calculations.ts)\<close>

definition MAX_VALUATION :: jsnum where
  "MAX_VALUATION = Fin 1000000000"

definition calculateValuation :: "SimulationData \<Rightarrow> ValuationData" where
  "calculateValuation data =
     (let amount = jmul (jmul (ebitda data) (multiple data)) (factorScore data);
          percentage = Math_min (jmul (jdiv amount MAX_VALUATION) (Fin 100)) (Fin 100)
      in \<lparr> amount = amount, percentage = percentage, maxValuation = MAX_VALUATION \<rparr>)"

definition initialSimulationData :: SimulationData where
  "initialSimulationData =
     \<lparr> ebitda = Fin 10, interestRate = Fin 20, multiple = Fin 10, factorScore = Fin 3,
       companyName = VStr (utf16 ''ABC Corp.''),
       description =
         VStr (utf16 ''This is the company's description. This company is #1!'') \<rparr>"

section \<open>Parsing numbers (\<^verbatim>\<open>parseFloat\<close>)\<close>

text \<open>
  \<^verbatim>\<open>parseFloat\<close> skips leading white space and reads the longest prefix that is a
  \<open>StrDecimalLiteral\<close>: an optional sign, then \<^verbatim>\<open>Infinity\<close> or decimal digits with an
  optional fraction and an optional exponent. Without such a prefix the result is NaN.
  The value of the literal is rounded to binary64.

  White space is \<open>StrWhiteSpaceChar\<close>: the white space and the line terminators of the
  language, that is TAB, LF, VT, FF, CR, the space, the no-break space, the other space
  separators of Unicode (U+1680, U+2000 to U+200A, U+202F, U+205F, U+3000), the line and
  paragraph separators U+2028 and U+2029, and U+FEFF. Each is one code unit.
\<close>

definition is_ws :: "16 word \<Rightarrow> bool" where
  "is_ws c =
     (c \<in> {0x9, 0xA, 0xB, 0xC, 0xD, 0x20, 0xA0, 0x1680,
            0x2000, 0x2001, 0x2002, 0x2003, 0x2004, 0x2005, 0x2006, 0x2007, 0x2008, 0x2009,
            0x200A, 0x2028, 0x2029, 0x202F, 0x205F, 0x3000, 0xFEFF})"

definition is_digit :: "16 word \<Rightarrow> bool" where
  "is_digit c = (0x30 \<le> c \<and> c \<le> 0x39)"

definition digit_val :: "16 word \<Rightarrow> nat" where
  "digit_val c = unat c - 48"

definition digits_val :: "jsstring \<Rightarrow> nat" where
  "digits_val ds = foldl (\<lambda>n c. 10 * n + digit_val c) 0 ds"

fun starts_with :: "jsstring \<Rightarrow> jsstring \<Rightarrow> bool" where
  "starts_with [] s = True"
| "starts_with (p # ps) [] = False"
| "starts_with (p # ps) (c # cs) = (p = c \<and> starts_with ps cs)"

text \<open>The exponent part at the head of \<open>s\<close>, or \<open>0\<close> when there is none.\<close>

definition exponent_part :: "jsstring \<Rightarrow> int" where
  "exponent_part s =
     (case s of
        [] \<Rightarrow> 0
      | e # r \<Rightarrow>
          if e = of_char CHR ''e'' \<or> e = of_char CHR ''E'' then
            (case r of
               [] \<Rightarrow> 0
             | sg # r' \<Rightarrow>
                 if sg = of_char CHR ''-'' then
                   (if takeWhile is_digit r' = [] then 0
                    else - int (digits_val (takeWhile is_digit r')))
                 else if sg = of_char CHR ''+'' then int (digits_val (takeWhile is_digit r'))
                 else int (digits_val (takeWhile is_digit r)))
          else 0)"

definition scale10 :: "nat \<Rightarrow> int \<Rightarrow> real" where
  "scale10 m k = (if 0 \<le> k then real m * 10 ^ nat k else real m / 10 ^ nat (- k))"

text \<open>The unsigned literal at the head of \<open>s\<close>; \<open>None\<close> when no prefix is one.\<close>

definition unsigned_literal :: "jsstring \<Rightarrow> jsnum option" where
  "unsigned_literal s =
     (if starts_with (utf16 ''Infinity'') s then Some PosInf
      else
        let ip = takeWhile is_digit s; r1 = dropWhile is_digit s;
            dot = (r1 \<noteq> [] \<and> hd r1 = of_char CHR ''.'');
            fp = (if dot then takeWhile is_digit (tl r1) else []);
            r2 = (if dot then dropWhile is_digit (tl r1) else r1)
        in if ip = [] \<and> fp = [] then None
           else Some (to_double
                  (scale10 (digits_val (ip @ fp)) (exponent_part r2 - int (length fp)))))"

fun jneg :: "jsnum \<Rightarrow> jsnum" where
  "jneg (Fin x) = Fin (- x)"
| "jneg PosInf = NegInf"
| "jneg NegInf = PosInf"
| "jneg NaN = NaN"

definition parseFloat :: "jsstring \<Rightarrow> jsnum" where
  "parseFloat str =
     (let t = dropWhile is_ws str
      in case t of
           [] \<Rightarrow> NaN
         | c # r \<Rightarrow>
             if c = of_char CHR ''-'' then
               (case unsigned_literal r of None \<Rightarrow> NaN | Some v \<Rightarrow> jneg v)
             else if c = of_char CHR ''+'' then
               (case unsigned_literal r of None \<Rightarrow> NaN | Some v \<Rightarrow> v)
             else (case unsigned_literal t of None \<Rightarrow> NaN | Some v \<Rightarrow> v))"

text \<open>
  \<^verbatim>\<open>parseFloat(String(value))\<close>. For a number, \<^verbatim>\<open>String\<close> prints the digits that read
  back as the same number (and \<^verbatim>\<open>NaN\<close>, \<^verbatim>\<open>Infinity\<close>, \<^verbatim>\<open>-Infinity\<close> for the others), so
  the composition returns the number it was given.
\<close>

fun parseFloat_String :: "jsval \<Rightarrow> jsnum" where
  "parseFloat_String (VStr s) = parseFloat s"
| "parseFloat_String (VNum n) = n"

section \<open>The store (store/simulationStore.ts)\<close>

text \<open>
  The timer starts at zero and only ever has one added to it, so its fields are natural
  numbers here (a double is exact on the integers below \<open>2\<^sup>5\<^sup>3\<close>).
\<close>

record TimerData =
  hours :: nat
  minutes :: nat
  seconds :: nat
  totalSeconds :: nat

datatype Role = team1 | team2

record UserData =
  name :: string
  role :: Role

text \<open>
  \<^verbatim>\<open>fieldStatus\<close> is an object keyed by field names. It is built from the empty object,
  one key at a time, so it is a map here and not a total function.
\<close>

type_synonym FieldStatus = "SimulationField \<rightharpoonup> FieldToggleStatus"

record AppState =
  simulation :: SimulationData
  fieldStatus :: FieldStatus
  valuation :: ValuationData
  timer :: TimerData
  user :: UserData
  isFirstTimeGuidanceOpen :: bool
  isVideoModalOpen :: bool
  isTextModalOpen :: bool

text \<open>\<^verbatim>\<open>Object.keys(initialSimulationData)\<close>, in the order of the literal.\<close>

definition Object_keys :: "SimulationField list" where
  "Object_keys =
     [F_ebitda, F_interestRate, F_multiple, F_factorScore, F_companyName, F_description]"

definition initialFieldStatus :: FieldStatus where
  "initialFieldStatus =
     foldl (\<lambda>acc key. acc(key \<mapsto> (if key = F_description then TBD else OK)))
       Map.empty Object_keys"

definition zeroTimer :: TimerData where
  "zeroTimer = \<lparr> hours = 0, minutes = 0, seconds = 0, totalSeconds = 0 \<rparr>"

definition initialState :: AppState where
  "initialState =
     \<lparr> simulation = initialSimulationData,
       fieldStatus = initialFieldStatus,
       valuation = calculateValuation initialSimulationData,
       timer = zeroTimer,
       user = \<lparr> name = ''John Doe'', role = team1 \<rparr>,
       isFirstTimeGuidanceOpen = True,
       isVideoModalOpen = False,
       isTextModalOpen = False \<rparr>"

text \<open>
  \<^verbatim>\<open>parseFloat(String(value)) || state.simulation[field] || 0\<close>, the value stored in a
  field that currently holds the number \<open>prev\<close>.
\<close>

definition numericValue :: "jsval \<Rightarrow> jsnum \<Rightarrow> jsnum" where
  "numericValue v prev = jor (jor (parseFloat_String v) prev) (Fin 0)"

text \<open>\<^verbatim>\<open>processedValue\<close> for a field whose current content is \<open>cur\<close>: the test
  \<^verbatim>\<open>typeof state.simulation[field] === 'number'\<close> is the case distinction on \<open>cur\<close>.\<close>

definition processedValue :: "jsval \<Rightarrow> jsval \<Rightarrow> jsval" where
  "processedValue cur v =
     (case cur of VNum prev \<Rightarrow> VNum (numericValue v prev) | VStr _ \<Rightarrow> v)"

text \<open>\<^verbatim>\<open>{ ...state.simulation, [field]: processedValue }\<close>\<close>

fun newSimulation :: "SimulationField \<Rightarrow> jsval \<Rightarrow> SimulationData \<Rightarrow> SimulationData" where
  "newSimulation F_ebitda v d = d\<lparr>ebitda := numericValue v (ebitda d)\<rparr>"
| "newSimulation F_interestRate v d = d\<lparr>interestRate := numericValue v (interestRate d)\<rparr>"
| "newSimulation F_multiple v d = d\<lparr>multiple := numericValue v (multiple d)\<rparr>"
| "newSimulation F_factorScore v d = d\<lparr>factorScore := numericValue v (factorScore d)\<rparr>"
| "newSimulation F_companyName v d = d\<lparr>companyName := processedValue (companyName d) v\<rparr>"
| "newSimulation F_description v d = d\<lparr>description := processedValue (description d) v\<rparr>"

text \<open>\<^verbatim>\<open>state.simulation[field]\<close>\<close>

fun getField :: "SimulationData \<Rightarrow> SimulationField \<Rightarrow> jsval" where
  "getField d F_ebitda = VNum (ebitda d)"
| "getField d F_interestRate = VNum (interestRate d)"
| "getField d F_multiple = VNum (multiple d)"
| "getField d F_factorScore = VNum (factorScore d)"
| "getField d F_companyName = companyName d"
| "getField d F_description = description d"

definition updateSimulationField :: "SimulationField \<Rightarrow> jsval \<Rightarrow> AppState \<Rightarrow> AppState" where
  "updateSimulationField field v state =
     (let newSim = newSimulation field v (simulation state)
      in state\<lparr> simulation := newSim, valuation := calculateValuation newSim \<rparr>)"

definition updateFieldStatus ::
  "SimulationField \<Rightarrow> FieldToggleStatus \<Rightarrow> AppState \<Rightarrow> AppState" where
  "updateFieldStatus field status state =
     state\<lparr> fieldStatus := (fieldStatus state)(field \<mapsto> status) \<rparr>"

definition incrementTimer :: "AppState \<Rightarrow> AppState" where
  "incrementTimer state =
     (let newTotalSeconds = totalSeconds (timer state) + 1;
          h = newTotalSeconds div 3600;
          m = (newTotalSeconds mod 3600) div 60;
          s = newTotalSeconds mod 60
      in state\<lparr> timer := \<lparr> hours = h, minutes = m, seconds = s,
                          totalSeconds = newTotalSeconds \<rparr> \<rparr>)"

definition resetTimer :: "AppState \<Rightarrow> AppState" where
  "resetTimer state = state\<lparr> timer := zeroTimer \<rparr>"

definition toggleFirstTimeGuidance :: "AppState \<Rightarrow> AppState" where
  "toggleFirstTimeGuidance state =
     state\<lparr> isFirstTimeGuidanceOpen := \<not> isFirstTimeGuidanceOpen state \<rparr>"

definition openVideoModal :: "AppState \<Rightarrow> AppState" where
  "openVideoModal state = state\<lparr> isVideoModalOpen := True \<rparr>"

definition closeVideoModal :: "AppState \<Rightarrow> AppState" where
  "closeVideoModal state = state\<lparr> isVideoModalOpen := False \<rparr>"

definition openTextModal :: "AppState \<Rightarrow> AppState" where
  "openTextModal state = state\<lparr> isTextModalOpen := True \<rparr>"

definition closeTextModal :: "AppState \<Rightarrow> AppState" where
  "closeTextModal state = state\<lparr> isTextModalOpen := False \<rparr>"

definition setUserRole :: "Role \<Rightarrow> AppState \<Rightarrow> AppState" where
  "setUserRole r state = state\<lparr> user := (user state)\<lparr> role := r \<rparr> \<rparr>"

definition setUserName :: "string \<Rightarrow> AppState \<Rightarrow> AppState" where
  "setUserName n state = state\<lparr> user := (user state)\<lparr> name := n \<rparr> \<rparr>"

definition resetSimulation :: "AppState \<Rightarrow> AppState" where
  "resetSimulation state =
     state\<lparr> simulation := initialSimulationData,
            fieldStatus := initialFieldStatus,
            valuation := calculateValuation initialSimulationData,
            timer := zeroTimer \<rparr>"

section \<open>Formatting (utils/calculations.ts)\<close>

text \<open>The decimal digits of a natural number (\<^verbatim>\<open>num.toString()\<close> on a non-negative
  integer below \<open>10\<^sup>2\<^sup>1\<close>).\<close>

definition digit_char :: "nat \<Rightarrow> char" where
  "digit_char d = char_of (48 + d)"

function nat_toString :: "nat \<Rightarrow> string" where
  "nat_toString n =
     (if n < 10 then [digit_char n] else nat_toString (n div 10) @ [digit_char (n mod 10)])"
  by pat_completeness auto
termination
  by (relation "measure (\<lambda>n. n)") auto

declare nat_toString.simps [simp del]

text \<open>\<^verbatim>\<open>s.padStart(n, c)\<close> for a one-character filler.\<close>

definition padStart :: "nat \<Rightarrow> char \<Rightarrow> string \<Rightarrow> string" where
  "padStart n c s = replicate (n - length s) c @ s"

definition pad :: "nat \<Rightarrow> string" where
  "pad num = padStart 2 (CHR ''0'') (nat_toString num)"

text \<open>\<^verbatim>\<open>formatTime\<close>, on the non-negative integers the timer holds.\<close>

definition formatTime :: "nat \<Rightarrow> string" where
  "formatTime secs =
     (let h = secs div 3600;
          m = (secs mod 3600) div 60;
          s = secs mod 60
      in pad h @ '':'' @ pad m @ '':'' @ pad s)"

text \<open>
  \<^verbatim>\<open>x.toFixed(f)\<close>. A value that is not finite prints as \<^verbatim>\<open>NaN\<close>, \<^verbatim>\<open>Infinity\<close> or
  \<^verbatim>\<open>-Infinity\<close>. A finite value below \<open>10\<^sup>2\<^sup>1\<close> in magnitude prints as the integer \<open>n\<close>
  nearest to \<open>x * 10\<^sup>f\<close> (the larger one at a tie), with a point before its last \<open>f\<close>
  digits. From \<open>10\<^sup>2\<^sup>1\<close> on the result is the exponent notation of \<^verbatim>\<open>String(x)\<close>, whose
  digits depend on the binary representation of \<open>x\<close>: the parameter \<open>exp_notation\<close>.
\<close>

definition round_half_up :: "real \<Rightarrow> nat" where
  "round_half_up x = nat \<lfloor>x + 1 / 2\<rfloor>"

definition fixed_digits :: "nat \<Rightarrow> nat \<Rightarrow> string" where
  "fixed_digits n f =
     (let m = nat_toString n
      in if f = 0 then m
         else let m' = padStart (f + 1) (CHR ''0'') m; k = length m'
              in take (k - f) m' @ ''.'' @ drop (k - f) m')"

fun toFixed :: "(real \<Rightarrow> string) \<Rightarrow> jsnum \<Rightarrow> nat \<Rightarrow> string" where
  "toFixed exp_notation NaN f = ''NaN''"
| "toFixed exp_notation PosInf f = ''Infinity''"
| "toFixed exp_notation NegInf f = ''-Infinity''"
| "toFixed exp_notation (Fin x) f =
     (let s = (if x < 0 then ''-'' else []); a = \<bar>x\<bar>
      in if 10 ^ 21 \<le> a then s @ exp_notation a
         else s @ fixed_digits (round_half_up (a * 10 ^ f)) f)"

definition formatCurrency :: "(real \<Rightarrow> string) \<Rightarrow> jsnum \<Rightarrow> string" where
  "formatCurrency exp_notation amt =
     (if jge amt (Fin 1000000000) then
        ''$'' @ toFixed exp_notation (jdiv amt (Fin 1000000000)) 1 @ ''B''
      else if jge amt (Fin 1000000) then
        ''$'' @ toFixed exp_notation (jdiv amt (Fin 1000000)) 0 @ '' million''
      else if jge amt (Fin 1000) then
        ''$'' @ toFixed exp_notation (jdiv amt (Fin 1000)) 0 @ ''K''
      else ''$'' @ toFixed exp_notation amt 0)"

section \<open>The role gate (components/forms/InputField.tsx)\<close>

text \<open>
  The store's operations do not look at the role. The two handlers of \<^verbatim>\<open>InputField\<close>,
  the only callers of \<^verbatim>\<open>updateSimulationField\<close> and \<^verbatim>\<open>updateFieldStatus\<close>, do:
  \<^verbatim>\<open>if (!isTeam1) return;\<close> and \<^verbatim>\<open>if (!isTeam2) return;\<close>.
\<close>

definition handleValueChange :: "SimulationField \<Rightarrow> jsval \<Rightarrow> AppState \<Rightarrow> AppState" where
  "handleValueChange field newValue state =
     (if \<not> (role (user state) = team1) then state
      else updateSimulationField field newValue state)"

definition handleStatusToggle ::
  "SimulationField \<Rightarrow> FieldToggleStatus \<Rightarrow> AppState \<Rightarrow> AppState" where
  "handleStatusToggle field newStatus state =
     (if \<not> (role (user state) = team2) then state
      else updateFieldStatus field newStatus state)"

section \<open>Persistence (the \<^verbatim>\<open>persist\<close> options of the store)\<close>

text \<open>
  The store is wrapped in the \<^verbatim>\<open>persist\<close> middleware of the zustand library, with the
  name \<^verbatim>\<open>simulation-storage\<close> and the \<^verbatim>\<open>partialize\<close> function. Both are in the store's
  source; the middleware itself is not. Objects are JSON values here.
\<close>

datatype json = JBoolean bool | JNumber int | JString string | JObject "(string \<times> json) list"

type_synonym storage = "string \<rightharpoonup> json"

fun role_name :: "Role \<Rightarrow> string" where
  "role_name team1 = ''team1''"
| "role_name team2 = ''team2''"

text \<open>The object \<^verbatim>\<open>state.user\<close>.\<close>

definition user_json :: "UserData \<Rightarrow> json" where
  "user_json u = JObject [(''name'', JString (name u)), (''role'', JString (role_name (role u)))]"

definition partialize :: "AppState \<Rightarrow> json" where
  "partialize state =
     JObject [(''isFirstTimeGuidanceOpen'', JBoolean (isFirstTimeGuidanceOpen state)),
              (''user'', user_json (user state))]"

definition storage_name :: string where
  "storage_name = ''simulation-storage''"

text \<open>Reading a property of an object, and the keys of an object.\<close>

fun json_prop :: "string \<Rightarrow> json \<Rightarrow> json option" where
  "json_prop k (JObject kvs) = map_of kvs k"
| "json_prop k (JBoolean b) = None"
| "json_prop k (JNumber n) = None"
| "json_prop k (JString s) = None"

fun json_keys :: "json \<Rightarrow> string list" where
  "json_keys (JObject kvs) = map fst kvs"
| "json_keys (JBoolean b) = []"
| "json_keys (JNumber n) = []"
| "json_keys (JString s) = []"

text \<open>
  Modelled from the spec: \<open>save\<close> of the persistence gateway, which is the library's
  middleware and is missing from the sources. The spec: \<^emph>\<open>save(subset) serializes the
  PersistedSubset under one well-known durable-storage key\<close>, the record being
  \<^verbatim>\<open>{ isFirstTimeGuidanceOpen: boolean, user: { name: string, role: "team1" | "team2" } }\<close>.
  The record is kept as a JSON value: its text is not modelled.
\<close>

definition save :: "AppState \<Rightarrow> storage \<Rightarrow> storage" where
  "save state st = st(storage_name \<mapsto> partialize state)"

definition role_of_json :: "json \<Rightarrow> Role option" where
  "role_of_json j =
     (if j = JString ''team1'' then Some team1
      else if j = JString ''team2'' then Some team2
      else None)"

definition user_of_json :: "json \<Rightarrow> UserData option" where
  "user_of_json j =
     (case (json_prop ''name'' j, json_prop ''role'' j) of
        (Some (JString n), Some r) \<Rightarrow>
          (case role_of_json r of
             Some ro \<Rightarrow> Some \<lparr> name = n, role = ro \<rparr>
           | None \<Rightarrow> None)
      | _ \<Rightarrow> None)"

text \<open>The stored record read against the expected shape.\<close>

definition subset_of_json :: "json \<Rightarrow> (bool \<times> UserData) option" where
  "subset_of_json j =
     (case (json_prop ''isFirstTimeGuidanceOpen'' j, json_prop ''user'' j) of
        (Some (JBoolean b), Some uj) \<Rightarrow>
          (case user_of_json uj of Some u \<Rightarrow> Some (b, u) | None \<Rightarrow> None)
      | _ \<Rightarrow> None)"

text \<open>The persisted fields \<open>b\<close> and \<open>u\<close> put into the state; every other field stays.\<close>

definition merge :: "bool \<Rightarrow> UserData \<Rightarrow> AppState \<Rightarrow> AppState" where
  "merge b u currentState = currentState\<lparr> isFirstTimeGuidanceOpen := b, user := u \<rparr>"

text \<open>
  Modelled from the spec: \<open>load\<close> of the persistence gateway, missing from the sources
  like \<open>save\<close>. The spec: \<^emph>\<open>load() deserializes it at process start. If no prior record
  exists, the container starts from defaults. If a stored record exists but fails to parse
  against the expected shape, the Gateway must fail open: discard the corrupted record and
  fall back to defaults\<close>; and \<^emph>\<open>only these fields are ever written or read back; all other
  state is volatile\<close>. The second argument is the state the container starts from.
\<close>

definition load :: "storage \<Rightarrow> AppState \<Rightarrow> AppState" where
  "load st defaults =
     (case st storage_name of
        None \<Rightarrow> defaults
      | Some stored \<Rightarrow>
          (case subset_of_json stored of
             None \<Rightarrow> defaults
           | Some (b, u) \<Rightarrow> merge b u defaults))"

section \<open>Runs of the store\<close>

text \<open>Every way the state changes: the twelve operations of the store, and the merge
  of a persisted flag and user when the state is loaded.\<close>

datatype Action =
    UpdateSimulationField SimulationField jsval
  | UpdateFieldStatus SimulationField FieldToggleStatus
  | IncrementTimer
  | ResetTimer
  | ToggleFirstTimeGuidance
  | OpenVideoModal
  | CloseVideoModal
  | OpenTextModal
  | CloseTextModal
  | SetUserRole Role
  | SetUserName string
  | ResetSimulation
  | Rehydrate bool UserData

fun dispatch :: "Action \<Rightarrow> AppState \<Rightarrow> AppState" where
  "dispatch (UpdateSimulationField f v) s = updateSimulationField f v s"
| "dispatch (UpdateFieldStatus f st) s = updateFieldStatus f st s"
| "dispatch IncrementTimer s = incrementTimer s"
| "dispatch ResetTimer s = resetTimer s"
| "dispatch ToggleFirstTimeGuidance s = toggleFirstTimeGuidance s"
| "dispatch OpenVideoModal s = openVideoModal s"
| "dispatch CloseVideoModal s = closeVideoModal s"
| "dispatch OpenTextModal s = openTextModal s"
| "dispatch CloseTextModal s = closeTextModal s"
| "dispatch (SetUserRole r) s = setUserRole r s"
| "dispatch (SetUserName n) s = setUserName n s"
| "dispatch ResetSimulation s = resetSimulation s"
| "dispatch (Rehydrate b u) s = merge b u s"

definition run :: "Action list \<Rightarrow> AppState \<Rightarrow> AppState" where
  "run acts s = foldl (\<lambda>st a. dispatch a st) s acts"

section \<open>Predicates on states\<close>

text \<open>The stored valuation is the valuation of the stored inputs.\<close>

definition in_sync :: "AppState \<Rightarrow> bool" where
  "in_sync s = (valuation s = calculateValuation (simulation s))"

text \<open>Every key of \<open>Object_keys\<close> has a status.\<close>

definition status_complete :: "AppState \<Rightarrow> bool" where
  "status_complete s = list_all (\<lambda>f. fieldStatus s f \<noteq> None) Object_keys"

text \<open>The four fields of type \<^verbatim>\<open>number\<close>.\<close>

fun numeric_field :: "SimulationField \<Rightarrow> bool" where
  "numeric_field F_ebitda = True"
| "numeric_field F_interestRate = True"
| "numeric_field F_multiple = True"
| "numeric_field F_factorScore = True"
| "numeric_field F_companyName = False"
| "numeric_field F_description = False"

text \<open>No numeric field holds NaN.\<close>

definition no_NaN :: "AppState \<Rightarrow> bool" where
  "no_NaN s =
     (ebitda (simulation s) \<noteq> NaN \<and> interestRate (simulation s) \<noteq> NaN
      \<and> multiple (simulation s) \<noteq> NaN \<and> factorScore (simulation s) \<noteq> NaN)"

text \<open>The characters \<open>0\<close> to \<open>9\<close>.\<close>

definition is_decimal_digit :: "char \<Rightarrow> bool" where
  "is_decimal_digit c = (48 \<le> (of_char c :: nat) \<and> (of_char c :: nat) \<le> 57)"

section \<open>Properties of the rounding\<close>

lemma round_even_of_int: "round_even (of_int n) = n"
  by (simp add: round_even_def)

lemma round_even_le: "of_int (round_even y) \<le> y + 1 / 2"
  unfolding round_even_def Let_def by (auto; linarith)

lemma round_even_nonneg: "0 \<le> y \<Longrightarrow> 0 \<le> round_even y"
  unfolding round_even_def Let_def by (auto; linarith)

lemma round_double_nonneg: "0 \<le> x \<Longrightarrow> 0 \<le> round_double x"
  by (simp add: round_double_def round_even_nonneg)

lemma floor_log2_eq:
  assumes "2 powi e \<le> x" and "x < 2 powi (e + 1)"
  shows "\<lfloor>log 2 x\<rfloor> = e"
proof -
  have x: "0 < x"
    using assms(1) by (smt (verit) zero_less_power_int)
  have "2 powr (of_int e) \<le> x"
    using assms(1) by (simp add: powr_real_of_int')
  moreover have "x < 2 powr (of_int (e + 1))"
    using assms(2) powr_real_of_int' [of 2 "e + 1"] by simp
  ultimately show ?thesis
    using x by (simp add: floor_log_eq_powr_iff)
qed

lemma exp_up_bounds: "1 \<le> x \<Longrightarrow> 2 powi exp_up x \<le> x \<and> x < 2 powi (exp_up x + 1)"
proof (induction x rule: exp_up.induct)
  case (1 x)
  show ?case
  proof (cases "x < 2")
    case True
    with 1(2) show ?thesis
      by (simp add: exp_up.simps [of x])
  next
    case False
    then have "1 \<le> x / 2" by simp
    with 1(1) False
    have "2 powi exp_up (x / 2) \<le> x / 2 \<and> x / 2 < 2 powi (exp_up (x / 2) + 1)"
      by simp
    with False show ?thesis
      by (simp add: exp_up.simps [of x] power_int_add field_simps)
  qed
qed

lemma exp_down_bounds:
  "0 < x \<Longrightarrow> x < 1 \<Longrightarrow> 2 powi exp_down x \<le> x \<and> x < 2 powi (exp_down x + 1)"
proof (induction x rule: exp_down.induct)
  case (1 x)
  show ?case
  proof (cases "2 * x < 1")
    case True
    with 1
    have "2 powi exp_down (2 * x) \<le> 2 * x \<and> 2 * x < 2 powi (exp_down (2 * x) + 1)"
      by simp
    with 1(2,3) show ?thesis
      by (simp add: exp_down.simps [of x] power_int_diff power_int_add field_simps)
  next
    case False
    then have "exp_down (2 * x) = 0"
      by (simp add: exp_down.simps [of "2 * x"])
    with 1(2,3) False show ?thesis
      by (simp add: exp_down.simps [of x] power_int_minus)
  qed
qed

lemma binary_exponent_bounds:
  "0 < x \<Longrightarrow> 2 powi binary_exponent x \<le> x \<and> x < 2 powi (binary_exponent x + 1)"
  using exp_up_bounds [of x] exp_down_bounds [of x]
  by (cases "1 \<le> x") (simp_all add: binary_exponent_def)

lemma binary_exponent_log: "0 < x \<Longrightarrow> binary_exponent x = \<lfloor>log 2 x\<rfloor>"
  using binary_exponent_bounds [of x] floor_log2_eq [of "binary_exponent x" x] by simp

lemma ulp_exponent_log:
  "x \<noteq> 0 \<Longrightarrow> ulp_exponent x = max \<lfloor>log 2 \<bar>x\<bar>\<rfloor> (- 1022) - 52"
  by (simp add: ulp_exponent_def binary_exponent_log)

text \<open>The rounding of a value whose binary exponent \<open>e\<close> is known.\<close>

lemma round_double_eval:
  assumes "2 powi e \<le> \<bar>x\<bar>" and "\<bar>x\<bar> < 2 powi (e + 1)" and "- 1022 \<le> e"
  shows "round_double x = of_int (round_even (x / 2 powi (e - 52))) * 2 powi (e - 52)"
proof -
  have "\<lfloor>log 2 \<bar>x\<bar>\<rfloor> = e"
    using assms(1,2) by (rule floor_log2_eq)
  moreover have x: "x \<noteq> 0"
    using assms(1) by (smt (verit) zero_less_power_int)
  ultimately have "ulp_exponent x = e - 52"
    using assms(3) by (simp add: ulp_exponent_log)
  with x show ?thesis
    by (simp add: round_double_def)
qed

lemma power_int_floor_log2_le:
  assumes "0 < x"
  shows "2 powi \<lfloor>log 2 x\<rfloor> \<le> x"
proof -
  have "2 powr (of_int \<lfloor>log 2 x\<rfloor>) \<le> 2 powr (log 2 x)"
    by (intro powr_mono) simp_all
  with assms show ?thesis
    by (simp add: powr_real_of_int')
qed

lemma ulp_le:
  assumes "0 < x"
  shows "(2::real) powi ulp_exponent x \<le> x / 2 ^ 52 + 1"
proof (cases "- 1022 \<le> \<lfloor>log 2 x\<rfloor>")
  case True
  then have "ulp_exponent x = \<lfloor>log 2 x\<rfloor> - 52"
    using assms by (simp add: ulp_exponent_log)
  then have "(2::real) powi ulp_exponent x = 2 powi \<lfloor>log 2 x\<rfloor> / 2 ^ 52"
    by (simp add: power_int_diff)
  also have "\<dots> \<le> x / 2 ^ 52"
    using power_int_floor_log2_le [OF assms] by (simp add: divide_right_mono)
  finally show ?thesis
    by (simp add: add_increasing2)
next
  case False
  then have "ulp_exponent x = - 1074"
    using assms by (simp add: ulp_exponent_log)
  then have "(2::real) powi ulp_exponent x = 1 / 2 ^ 1074"
    by (simp add: power_int_minus field_simps)
  also have "\<dots> \<le> (1::real)"
    by simp
  finally show ?thesis
    using assms by (simp add: add_increasing)
qed

text \<open>Rounding moves a value by at most half a unit in the last place.\<close>

lemma round_double_le:
  assumes "0 \<le> x"
  shows "round_double x \<le> x + x / 2 ^ 53 + 1 / 2"
proof (cases "x = 0")
  case True
  then show ?thesis by (simp add: round_double_def)
next
  case False
  with assms have x: "0 < x" by simp
  let ?u = "(2::real) powi ulp_exponent x"
  have u: "0 < ?u" by simp
  have "round_double x = of_int (round_even (x / ?u)) * ?u"
    using False by (simp add: round_double_def)
  also have "\<dots> \<le> (x / ?u + 1 / 2) * ?u"
    using round_even_le [of "x / ?u"] u by (intro mult_right_mono) simp_all
  also have "\<dots> = x + ?u / 2"
    using u by (simp add: field_simps)
  also have "\<dots> \<le> x + (x / 2 ^ 52 + 1) / 2"
    using ulp_le [OF x] by simp
  also have "\<dots> = x + x / 2 ^ 53 + 1 / 2"
    by (simp add: field_simps)
  finally show ?thesis .
qed

text \<open>The integers below \<open>2\<^sup>5\<^sup>3\<close> in magnitude are binary64 values.\<close>

lemma round_double_of_int:
  assumes "\<bar>n\<bar> < 2 ^ 53"
  shows "round_double (of_int n) = of_int n"
proof (cases "n = 0")
  case True
  then show ?thesis by (simp add: round_double_def)
next
  case False
  define e where "e = \<lfloor>log 2 \<bar>real_of_int n\<bar>\<rfloor>"
  have "1 \<le> \<bar>n\<bar>"
    using False by linarith
  then have "(1::real) \<le> of_int \<bar>n\<bar>"
    by linarith
  then have a: "1 \<le> \<bar>real_of_int n\<bar>"
    by simp
  have "real_of_int \<bar>n\<bar> < 2 ^ 53"
    using assms by (simp only: of_int_less_numeral_power_cancel_iff)
  then have b: "\<bar>real_of_int n\<bar> < 2 ^ 53"
    by simp
  have "0 \<le> log 2 \<bar>real_of_int n\<bar>"
    using a by simp
  then have e0: "0 \<le> e"
    by (simp add: e_def)
  have "log 2 \<bar>real_of_int n\<bar> < 53"
    using a b by (simp add: log_less_iff powr_realpow)
  then have e52: "e \<le> 52"
    unfolding e_def by linarith
  have "ulp_exponent (of_int n) = max e (- 1022) - 52"
    using False by (simp add: ulp_exponent_log e_def)
  with e0 have u: "ulp_exponent (of_int n) = e - 52"
    by simp
  have p: "(2::real) powi (e - 52) = 1 / 2 ^ nat (52 - e)"
    using e52 by (simp add: power_int_def field_simps)
  have "real_of_int n / 2 powi (e - 52) = of_int (n * 2 ^ nat (52 - e))"
    by (simp add: p)
  then have "round_even (real_of_int n / 2 powi (e - 52)) = n * 2 ^ nat (52 - e)"
    by (simp only: round_even_of_int)
  then show ?thesis
    using False by (simp add: round_double_def u p)
qed



lemma to_double_Fin: "round_double x = r \<Longrightarrow> \<bar>r\<bar> < 2 ^ 1024 \<Longrightarrow> to_double x = Fin r"
  by (auto simp: to_double_def Let_def)

lemma to_double_of_int: "\<bar>n\<bar> < 2 ^ 53 \<Longrightarrow> to_double (of_int n) = Fin (of_int n)"
proof -
  assume n: "\<bar>n\<bar> < 2 ^ 53"
  then have "real_of_int \<bar>n\<bar> < 2 ^ 53"
    by (simp only: of_int_less_numeral_power_cancel_iff)
  then have "\<bar>real_of_int n\<bar> < 2 ^ 53"
    by simp
  also have "\<dots> < (2::real) ^ 1024"
    by simp
  finally show ?thesis
    using round_double_of_int [OF n] by (intro to_double_Fin) simp_all
qed

lemma to_double_0: "to_double 0 = Fin 0"
  using to_double_of_int [of 0] by simp

lemma to_double_numeral:
  "(numeral k :: int) < 2 ^ 53 \<Longrightarrow> to_double (numeral k) = Fin (numeral k)"
  using to_double_of_int [of "numeral k"] by simp

lemma to_double_neg_numeral:
  "(numeral k :: int) < 2 ^ 53 \<Longrightarrow> to_double (- numeral k) = Fin (- numeral k)"
  using to_double_of_int [of "- numeral k"] by simp

lemmas to_double_simps = to_double_0 to_double_numeral to_double_neg_numeral

section \<open>Properties of the valuation\<close>

lemmas parse_defs =
  parseFloat_def unsigned_literal_def utf16_def is_ws_def is_digit_def digits_val_def
  digit_val_def scale10_def exponent_part_def to_double_simps







text \<open>The percentage of the amount 300, as the two roundings leave it.\<close>

lemma percentage_300:
  "Math_min (jmul (jdiv (Fin 300) (Fin 1000000000)) (Fin 100)) (Fin 100)
     = Fin (1106804644422573 / 2 ^ 65)"
proof -
  define d :: real where "d = 2833419889721787 / 2 ^ 73"
  define p :: real where "p = 1106804644422573 / 2 ^ 65"
  have "round_double (300 / 1000000000) = d"
    using round_double_eval [of "- 22" "300 / 1000000000"] by (simp add: round_even_def d_def)
  from to_double_Fin [OF this] have q: "to_double (300 / 1000000000) = Fin d"
    by (simp add: d_def)
  have "round_double (d * 100) = p"
    using round_double_eval [of "- 16" "d * 100"] by (simp add: round_even_def d_def p_def)
  from to_double_Fin [OF this] have m: "to_double (d * 100) = Fin p"
    by (simp add: p_def)
  have "p \<le> 100"
    by (simp add: p_def)
  with q m have "Math_min (jmul (jdiv (Fin 300) (Fin 1000000000)) (Fin 100)) (Fin 100) = Fin p"
    by simp
  then show ?thesis
    by (simp only: p_def)
qed


lemma valuation_initial:
  "calculateValuation initialSimulationData =
     \<lparr> amount = Fin 300, percentage = Fin (1106804644422573 / 2 ^ 65),
       maxValuation = Fin 1000000000 \<rparr>"
proof -
  have "jmul (jmul (Fin 10) (Fin 10)) (Fin 3) = Fin 300"
    by (simp add: to_double_simps)
  then show ?thesis
    by (simp only: calculateValuation_def initialSimulationData_def MAX_VALUATION_def Let_def
        SimulationData.simps percentage_300)
qed




section \<open>Invariants of the store\<close>

lemmas store_ops =
  updateSimulationField_def updateFieldStatus_def incrementTimer_def resetTimer_def
  toggleFirstTimeGuidance_def openVideoModal_def closeVideoModal_def openTextModal_def
  closeTextModal_def setUserRole_def setUserName_def resetSimulation_def merge_def

lemma in_sync_initial: "in_sync initialState"
  by (simp add: in_sync_def initialState_def)

lemma in_sync_dispatch: "in_sync s \<Longrightarrow> in_sync (dispatch a s)"
  by (cases a) (simp_all add: in_sync_def store_ops Let_def)

lemma in_sync_run: "in_sync s \<Longrightarrow> in_sync (run acts s)"
  unfolding run_def
  by (induction acts arbitrary: s) (simp_all add: in_sync_dispatch)

text \<open>The percentage of the amount 60.\<close>

lemma percentage_60:
  "Math_min (jmul (jdiv (Fin 60) (Fin 1000000000)) (Fin 100)) (Fin 100)
     = Fin (7083549724304467 / 2 ^ 70)"
proof -
  define d :: real where "d = 4533471823554859 / 2 ^ 76"
  define p :: real where "p = 7083549724304467 / 2 ^ 70"
  have "round_double (60 / 1000000000) = d"
    using round_double_eval [of "- 24" "60 / 1000000000"] by (simp add: round_even_def d_def)
  from to_double_Fin [OF this] have q: "to_double (60 / 1000000000) = Fin d"
    by (simp add: d_def)
  have "round_double (d * 100) = p"
    using round_double_eval [of "- 18" "d * 100"] by (simp add: round_even_def d_def p_def)
  from to_double_Fin [OF this] have m: "to_double (d * 100) = Fin p"
    by (simp add: p_def)
  have "p \<le> 100"
    by (simp add: p_def)
  with q m have "Math_min (jmul (jdiv (Fin 60) (Fin 1000000000)) (Fin 100)) (Fin 100) = Fin p"
    by simp
  then show ?thesis
    by (simp only: p_def)
qed

text \<open>
  C2. In every state the store reaches from its initial state, through any sequence of
  its operations and of merges of a persisted state, the stored valuation is
  \<open>calculateValuation\<close> of the stored inputs. Each operation keeps the two in step, so do
  the two handlers of the input component, and \<open>updateSimulationField\<close> and
  \<open>resetSimulation\<close> put them in step whatever the state before.
\<close>

theorem C2_valuation_in_sync:
  "in_sync (run acts initialState)
   \<and> (in_sync s \<longrightarrow> in_sync (dispatch a s))
   \<and> (in_sync s \<longrightarrow> in_sync (handleValueChange f v s) \<and> in_sync (handleStatusToggle f st s))
   \<and> in_sync (updateSimulationField f v s)
   \<and> in_sync (resetSimulation s)"
proof -
  have "in_sync (run acts initialState)"
    by (rule in_sync_run [OF in_sync_initial])
  moreover have "in_sync (updateSimulationField f v s)" "in_sync (resetSimulation s)"
    by (simp_all add: in_sync_def store_ops Let_def)
  moreover have "in_sync s \<longrightarrow> in_sync (handleValueChange f v s) \<and> in_sync (handleStatusToggle f st s)"
    by (simp add: in_sync_def handleValueChange_def handleStatusToggle_def store_ops Let_def)
  ultimately show ?thesis
    by (simp add: in_sync_dispatch)
qed

theorem C2_valuation_in_sync_witness:
  "in_sync initialState
   \<and> in_sync (dispatch (UpdateFieldStatus F_ebitda TBD) initialState)
   \<and> valuation (run [UpdateSimulationField F_multiple (VStr (utf16 ''2'')), IncrementTimer] initialState)
       = \<lparr> amount = Fin 60, percentage = Fin (7083549724304467 / 2 ^ 70),
           maxValuation = Fin 1000000000 \<rparr>"
proof -
  have i: "in_sync initialState"
    by (simp add: in_sync_def initialState_def)
  from C2_valuation_in_sync [of "[]" initialState "UpdateFieldStatus F_ebitda TBD"] i
  have d: "in_sync (dispatch (UpdateFieldStatus F_ebitda TBD) initialState)"
    by blast
  have m: "simulation (run [UpdateSimulationField F_multiple (VStr (utf16 ''2'')), IncrementTimer]
             initialState) = initialSimulationData\<lparr>multiple := Fin 2\<rparr>"
    by (simp add: run_def store_ops Let_def initialState_def initialSimulationData_def
        numericValue_def jor_def parse_defs)
  from C2_valuation_in_sync
    [of "[UpdateSimulationField F_multiple (VStr (utf16 ''2'')), IncrementTimer]"]
  have "valuation (run [UpdateSimulationField F_multiple (VStr (utf16 ''2'')), IncrementTimer]
          initialState) = calculateValuation (initialSimulationData\<lparr>multiple := Fin 2\<rparr>)"
    by (simp add: in_sync_def m)
  also have "\<dots> = \<lparr> amount = Fin 60, percentage = Fin (7083549724304467 / 2 ^ 70),
                    maxValuation = Fin 1000000000 \<rparr>"
  proof -
    have "jmul (jmul (Fin 10) (Fin 2)) (Fin 3) = Fin 60"
      by (simp add: to_double_simps)
    then show ?thesis
      by (simp only: calculateValuation_def initialSimulationData_def MAX_VALUATION_def Let_def
          SimulationData.simps percentage_60)
  qed
  finally show ?thesis using i d by blast
qed

section \<open>Reset\<close>

lemma initialFieldStatus_eq:
  "initialFieldStatus = (\<lambda>f. Some (if f = F_description then TBD else OK))"
proof
  fix f show "initialFieldStatus f = Some (if f = F_description then TBD else OK)"
    by (cases f) (simp_all add: initialFieldStatus_def Object_keys_def)
qed

text \<open>
  C5. From any state, \<open>resetSimulation\<close> puts the inputs, the review status and the
  timer back to their initial values (inputs 10, 20, 10, 3, the two initial texts; every
  status \<open>OK\<close> but that of the description, which is \<open>TBD\<close>; a zero timer) and stores the
  valuation of the initial inputs. The user and the three visibility flags are as before.
\<close>

theorem C5_resetSimulation:
  "simulation (resetSimulation s) =
     \<lparr> ebitda = Fin 10, interestRate = Fin 20, multiple = Fin 10, factorScore = Fin 3,
       companyName = VStr (utf16 ''ABC Corp.''),
       description =
         VStr (utf16 ''This is the company's description. This company is #1!'') \<rparr>
   \<and> fieldStatus (resetSimulation s) = (\<lambda>f. Some (if f = F_description then TBD else OK))
   \<and> timer (resetSimulation s) = \<lparr> hours = 0, minutes = 0, seconds = 0, totalSeconds = 0 \<rparr>
   \<and> valuation (resetSimulation s) = calculateValuation (simulation (resetSimulation s))
   \<and> valuation (resetSimulation s) =
       \<lparr> amount = Fin 300, percentage = Fin (1106804644422573 / 2 ^ 65),
         maxValuation = Fin 1000000000 \<rparr>
   \<and> user (resetSimulation s) = user s
   \<and> isFirstTimeGuidanceOpen (resetSimulation s) = isFirstTimeGuidanceOpen s
   \<and> isVideoModalOpen (resetSimulation s) = isVideoModalOpen s
   \<and> isTextModalOpen (resetSimulation s) = isTextModalOpen s
   \<and> simulation (resetSimulation s) = simulation initialState
   \<and> fieldStatus (resetSimulation s) = fieldStatus initialState
   \<and> timer (resetSimulation s) = timer initialState"
  by (simp add: resetSimulation_def initialFieldStatus_eq zeroTimer_def initialState_def
      valuation_initial [unfolded initialSimulationData_def] initialSimulationData_def)

theorem C5_resetSimulation_witness:
  "resetSimulation
     (run [SetUserRole team2, SetUserName ''Ann'', UpdateFieldStatus F_ebitda TBD,
           IncrementTimer, OpenVideoModal, ToggleFirstTimeGuidance] initialState)
   = initialState\<lparr> user := \<lparr> name = ''Ann'', role = team2 \<rparr>,
                   isFirstTimeGuidanceOpen := False, isVideoModalOpen := True \<rparr>"
proof -
  let ?s = "run [SetUserRole team2, SetUserName ''Ann'', UpdateFieldStatus F_ebitda TBD,
                 IncrementTimer, OpenVideoModal, ToggleFirstTimeGuidance] initialState"
  have u: "user ?s = \<lparr> name = ''Ann'', role = team2 \<rparr>" "isFirstTimeGuidanceOpen ?s = False"
    "isVideoModalOpen ?s = True" "isTextModalOpen ?s = False"
    by (simp_all add: run_def store_ops initialState_def)
  have "resetSimulation ?s = initialState\<lparr> user := user (resetSimulation ?s),
          isFirstTimeGuidanceOpen := isFirstTimeGuidanceOpen (resetSimulation ?s),
          isVideoModalOpen := isVideoModalOpen (resetSimulation ?s),
          isTextModalOpen := isTextModalOpen (resetSimulation ?s) \<rparr>"
    by (simp add: resetSimulation_def initialState_def)
  also have "\<dots> = initialState\<lparr> user := \<lparr> name = ''Ann'', role = team2 \<rparr>,
                   isFirstTimeGuidanceOpen := False, isVideoModalOpen := True \<rparr>"
    using C5_resetSimulation [of ?s] u by (simp add: initialState_def)
  finally show ?thesis .
qed


section \<open>The review status\<close>

lemma set_Object_keys: "set Object_keys = UNIV"
proof -
  have "f \<in> set Object_keys" for f
    by (cases f) (simp_all add: Object_keys_def)
  then show ?thesis by blast
qed

lemma status_complete_iff: "status_complete s \<longleftrightarrow> dom (fieldStatus s) = UNIV"
  by (auto simp: status_complete_def list_all_iff set_Object_keys)

lemma status_complete_initial: "status_complete initialState"
  by (simp add: status_complete_iff initialState_def initialFieldStatus_eq dom_def)

lemma status_complete_dispatch: "status_complete s \<Longrightarrow> status_complete (dispatch a s)"
  by (cases a) (auto simp: status_complete_iff store_ops Let_def initialFieldStatus_eq)

lemma status_complete_run: "status_complete s \<Longrightarrow> status_complete (run acts s)"
  unfolding run_def
  by (induction acts arbitrary: s) (simp_all add: status_complete_dispatch)

lemma status_cases: "st = TBD \<or> st = OK" for st :: FieldToggleStatus
  by (cases st) simp_all

text \<open>
  C8. In every state the store reaches, \<open>fieldStatus\<close> has a status for each of the six
  field names (its keys and its values are of the types \<open>SimulationField\<close> and
  \<open>FieldToggleStatus\<close>, so there is no other key and no other status), and every
  operation keeps it so. The initial status is \<open>OK\<close> for every field but the description,
  whose status is \<open>TBD\<close>.
\<close>

theorem C8_fieldStatus_complete:
  "dom (fieldStatus (run acts initialState)) = UNIV
   \<and> (fieldStatus (run acts initialState) f = Some TBD
        \<or> fieldStatus (run acts initialState) f = Some OK)
   \<and> (status_complete s \<longrightarrow> status_complete (dispatch a s))
   \<and> fieldStatus initialState f = Some (if f = F_description then TBD else OK)"
proof -
  have c: "status_complete (run acts initialState)"
    by (rule status_complete_run [OF status_complete_initial])
  then have d: "dom (fieldStatus (run acts initialState)) = UNIV"
    by (simp add: status_complete_iff)
  then obtain st where "fieldStatus (run acts initialState) f = Some st"
    by (metis UNIV_I domD)
  with status_cases [of st]
  have "fieldStatus (run acts initialState) f = Some TBD
        \<or> fieldStatus (run acts initialState) f = Some OK"
    by auto
  with d show ?thesis
    by (simp add: status_complete_dispatch initialState_def initialFieldStatus_eq)
qed

theorem C8_fieldStatus_complete_witness:
  "status_complete initialState
   \<and> status_complete (dispatch (UpdateFieldStatus F_description OK) initialState)
   \<and> fieldStatus (dispatch (UpdateFieldStatus F_description OK) initialState) F_description
       = Some OK
   \<and> map (fieldStatus initialState) Object_keys
       = [Some OK, Some OK, Some OK, Some OK, Some OK, Some TBD]"
proof -
  have i: "status_complete initialState"
    by (simp add: status_complete_def Object_keys_def initialState_def initialFieldStatus_def)
  from C8_fieldStatus_complete [of "[]" F_ebitda initialState "UpdateFieldStatus F_description OK"] i
  have "status_complete (dispatch (UpdateFieldStatus F_description OK) initialState)"
    by blast
  moreover have "map (fieldStatus initialState) Object_keys
       = [Some OK, Some OK, Some OK, Some OK, Some OK, Some TBD]"
    using C8_fieldStatus_complete [of "[]"] by (simp add: Object_keys_def)
  ultimately show ?thesis using i
    by (simp add: updateFieldStatus_def)
qed

section \<open>Role gating\<close>

text \<open>
  C4, as amended. The gate is in the handlers of the input component:
  \<open>handleValueChange\<close> while the role is \<open>team2\<close> leaves the whole state as it is, and so
  do the inputs and the valuation stay; \<open>handleStatusToggle\<close> while the role is \<open>team1\<close>
  leaves the whole state, and so the review status, as it is. Neither reports an error.
  With the permitted role each handler is the store's operation.
\<close>

theorem C4_handlers_gated:
  "(role (user s) = team2 \<longrightarrow> handleValueChange f v s = s)
   \<and> (role (user s) = team1 \<longrightarrow> handleStatusToggle f st s = s)
   \<and> (role (user s) = team1 \<longrightarrow> handleValueChange f v s = updateSimulationField f v s)
   \<and> (role (user s) = team2 \<longrightarrow> handleStatusToggle f st s = updateFieldStatus f st s)"
  by (simp add: handleValueChange_def handleStatusToggle_def)

theorem C4_handlers_gated_witness:
  "handleValueChange F_ebitda (VStr (utf16 ''5'')) (setUserRole team2 initialState)
     = setUserRole team2 initialState
   \<and> handleStatusToggle F_ebitda TBD initialState = initialState"
proof -
  have r2: "role (user (setUserRole team2 initialState)) = team2"
    by (simp add: setUserRole_def)
  have r1: "role (user initialState) = team1"
    by (simp add: initialState_def)
  from C4_handlers_gated [of "setUserRole team2 initialState" F_ebitda "VStr (utf16 ''5'')"] r2
  have "handleValueChange F_ebitda (VStr (utf16 ''5'')) (setUserRole team2 initialState)
          = setUserRole team2 initialState"
    by blast
  moreover from C4_handlers_gated [of initialState F_ebitda _ TBD] r1
  have "handleStatusToggle F_ebitda TBD initialState = initialState"
    by blast
  ultimately show ?thesis by blast
qed

text \<open>
  C4, as stated of the store's operations, fails: \<open>updateFieldStatus\<close> called while the
  role is \<open>team1\<close> changes the status, and \<open>updateSimulationField\<close> called while the role
  is \<open>team2\<close> changes the inputs and the valuation.
\<close>

theorem C4_store_not_gated_counterexample:
  "role (user initialState) = team1
   \<and> fieldStatus initialState F_ebitda = Some OK
   \<and> fieldStatus (updateFieldStatus F_ebitda TBD initialState) F_ebitda = Some TBD
   \<and> role (user (setUserRole team2 initialState)) = team2
   \<and> ebitda (simulation (setUserRole team2 initialState)) = Fin 10
   \<and> ebitda (simulation (updateSimulationField F_ebitda (VStr (utf16 ''5''))
        (setUserRole team2 initialState))) = Fin 5
   \<and> amount (valuation (setUserRole team2 initialState)) = Fin 300
   \<and> amount (valuation (updateSimulationField F_ebitda (VStr (utf16 ''5''))
        (setUserRole team2 initialState))) = Fin 150"
  by (simp add: store_ops Let_def initialState_def initialSimulationData_def
      initialFieldStatus_eq calculateValuation_def MAX_VALUATION_def
      numericValue_def jor_def parse_defs)


section \<open>The timer\<close>

lemma totalSeconds_funpow:
  "totalSeconds (timer ((incrementTimer ^^ n) s)) = totalSeconds (timer s) + n"
  by (induction n) (simp_all add: incrementTimer_def Let_def)

lemma timer_incrementTimer:
  "timer (incrementTimer s) =
     \<lparr> hours = (totalSeconds (timer s) + 1) div 3600,
       minutes = ((totalSeconds (timer s) + 1) mod 3600) div 60,
       seconds = (totalSeconds (timer s) + 1) mod 60,
       totalSeconds = totalSeconds (timer s) + 1 \<rparr>"
  by (simp add: incrementTimer_def Let_def)

lemma breakdown: "n div 3600 * 3600 + n mod 3600 div 60 * 60 + n mod 60 = n" for n :: nat
proof -
  have "n mod 3600 mod 60 = n mod 60"
    by (simp add: mod_mod_cancel)
  then have "n mod 3600 div 60 * 60 + n mod 60 = n mod 3600"
    by (metis div_mult_mod_eq)
  then show ?thesis
    by (metis add.assoc div_mult_mod_eq)
qed

lemma timer_3600:
  "timer ((incrementTimer ^^ 3600) (s\<lparr>timer := zeroTimer\<rparr>)) =
     \<lparr> hours = 1, minutes = 0, seconds = 0, totalSeconds = 3600 \<rparr>"
proof -
  have "(incrementTimer ^^ 3600) (s\<lparr>timer := zeroTimer\<rparr>)
          = incrementTimer ((incrementTimer ^^ 3599) (s\<lparr>timer := zeroTimer\<rparr>))"
    using funpow.simps(2) [of 3599 incrementTimer] by simp
  then show ?thesis
    by (simp add: timer_incrementTimer totalSeconds_funpow zeroTimer_def)
qed

text \<open>
  C7. Each call of \<open>incrementTimer\<close> adds one to \<open>totalSeconds\<close> and stores its breakdown:
  \<open>hours * 3600 + minutes * 60 + seconds\<close> is the new total, with minutes and seconds
  below 60 (all four are natural numbers). It changes nothing but the timer. 3600 calls
  from the zero timer give one hour, no minutes, no seconds, 3600 seconds in total, which
  \<open>formatTime\<close> prints as \<open>01:00:00\<close>.
\<close>

theorem C7_incrementTimer:
  "totalSeconds (timer (incrementTimer s)) = totalSeconds (timer s) + 1
   \<and> hours (timer (incrementTimer s)) * 3600 + minutes (timer (incrementTimer s)) * 60
       + seconds (timer (incrementTimer s)) = totalSeconds (timer (incrementTimer s))
   \<and> minutes (timer (incrementTimer s)) < 60
   \<and> seconds (timer (incrementTimer s)) < 60
   \<and> incrementTimer s = s\<lparr>timer := timer (incrementTimer s)\<rparr>
   \<and> totalSeconds (timer ((incrementTimer ^^ n) s)) = totalSeconds (timer s) + n
   \<and> timer ((incrementTimer ^^ 3600) (s\<lparr>timer := zeroTimer\<rparr>)) =
       \<lparr> hours = 1, minutes = 0, seconds = 0, totalSeconds = 3600 \<rparr>
   \<and> formatTime (totalSeconds (timer ((incrementTimer ^^ 3600) (s\<lparr>timer := zeroTimer\<rparr>))))
       = ''01:00:00''"
proof -
  have f: "formatTime 3600 = ''01:00:00''"
    by code_simp
  have b: "hours (timer (incrementTimer s)) * 3600 + minutes (timer (incrementTimer s)) * 60
       + seconds (timer (incrementTimer s)) = totalSeconds (timer (incrementTimer s))"
    using breakdown [of "totalSeconds (timer s) + 1"] by (simp add: timer_incrementTimer)
  have r: "incrementTimer s = s\<lparr>timer := timer (incrementTimer s)\<rparr>"
    by (simp add: incrementTimer_def Let_def)
  have "totalSeconds (timer (incrementTimer s)) = totalSeconds (timer s) + 1"
    "minutes (timer (incrementTimer s)) < 60" "seconds (timer (incrementTimer s)) < 60"
    by (simp_all add: timer_incrementTimer)
  with b r show ?thesis
    by (simp add: timer_3600 totalSeconds_funpow f)
qed

theorem C7_incrementTimer_witness:
  "timer (incrementTimer (initialState\<lparr>timer :=
      \<lparr> hours = 0, minutes = 59, seconds = 59, totalSeconds = 3599 \<rparr>\<rparr>))
     = \<lparr> hours = 1, minutes = 0, seconds = 0, totalSeconds = 3600 \<rparr>
   \<and> timer ((incrementTimer ^^ 3600) initialState)
     = \<lparr> hours = 1, minutes = 0, seconds = 0, totalSeconds = 3600 \<rparr>
   \<and> formatTime 3600 = ''01:00:00''"
proof -
  have z: "initialState\<lparr>timer := zeroTimer\<rparr> = initialState"
    by (simp add: initialState_def)
  have "timer (incrementTimer (initialState\<lparr>timer :=
      \<lparr> hours = 0, minutes = 59, seconds = 59, totalSeconds = 3599 \<rparr>\<rparr>))
     = \<lparr> hours = 1, minutes = 0, seconds = 0, totalSeconds = 3600 \<rparr>"
    by (simp add: incrementTimer_def Let_def)
  moreover note c = C7_incrementTimer [where s = initialState and n = 0, unfolded z]
  from c have t: "timer ((incrementTimer ^^ 3600) initialState)
     = \<lparr> hours = 1, minutes = 0, seconds = 0, totalSeconds = 3600 \<rparr>"
    by blast
  from c have f: "formatTime (totalSeconds (timer ((incrementTimer ^^ 3600) initialState)))
     = ''01:00:00''"
    by blast
  from f have "formatTime 3600 = ''01:00:00''"
    unfolding t by simp
  ultimately show ?thesis
    using t by blast
qed


section \<open>Persistence\<close>

lemma role_of_json_role_name: "role_of_json (JString (role_name r)) = Some r"
  by (cases r) (simp_all add: role_of_json_def)

lemma user_of_json_user_json: "user_of_json (user_json u) = Some u"
  by (simp add: user_of_json_def user_json_def role_of_json_role_name)

lemma subset_of_json_partialize:
  "subset_of_json (partialize s) = Some (isFirstTimeGuidanceOpen s, user s)"
  by (simp add: subset_of_json_def partialize_def user_of_json_user_json)

lemma load_save: "load (save s st) s0 = merge (isFirstTimeGuidanceOpen s) (user s) s0"
  by (simp add: load_def save_def subset_of_json_partialize)

text \<open>
  C6. What the store persists is an object with the two keys \<open>isFirstTimeGuidanceOpen\<close>
  and \<open>user\<close>, and it does not depend on any other field of the state. Saving it writes
  one entry of the storage, \<open>simulation-storage\<close>. Loading what was saved for a state \<open>s\<close>
  gives the starting state with the guidance flag and the user of \<open>s\<close> and every other
  field as it was, so the persisted subset read back is the one written. With nothing
  stored, loading gives the starting state.
\<close>

theorem C6_persisted_subset_roundtrip:
  "json_keys (partialize s) = [''isFirstTimeGuidanceOpen'', ''user'']
   \<and> json_prop ''isFirstTimeGuidanceOpen'' (partialize s)
       = Some (JBoolean (isFirstTimeGuidanceOpen s))
   \<and> json_prop ''user'' (partialize s)
       = Some (JObject [(''name'', JString (name (user s))),
                        (''role'', JString (role_name (role (user s))))])
   \<and> partialize (s\<lparr> simulation := a, fieldStatus := b, valuation := c, timer := d,
                      isVideoModalOpen := e, isTextModalOpen := g \<rparr>) = partialize s
   \<and> save s st = st(''simulation-storage'' \<mapsto> partialize s)
   \<and> load (save s st) s0
       = s0\<lparr> isFirstTimeGuidanceOpen := isFirstTimeGuidanceOpen s, user := user s \<rparr>
   \<and> partialize (load (save s st) s0) = partialize s
   \<and> load Map.empty s0 = s0"
  by (simp add: load_save merge_def)
    (simp add: partialize_def user_json_def save_def storage_name_def load_def)

theorem C6_persisted_subset_roundtrip_witness:
  "load (save (setUserName ''Ann'' (setUserRole team2
       (toggleFirstTimeGuidance (incrementTimer initialState)))) Map.empty) initialState
     = initialState\<lparr> isFirstTimeGuidanceOpen := False,
                     user := \<lparr> name = ''Ann'', role = team2 \<rparr> \<rparr>
   \<and> partialize initialState
     = JObject [(''isFirstTimeGuidanceOpen'', JBoolean True),
                (''user'', JObject [(''name'', JString ''John Doe''),
                                    (''role'', JString ''team1'')])]"
proof -
  let ?s = "setUserName ''Ann'' (setUserRole team2
       (toggleFirstTimeGuidance (incrementTimer initialState)))"
  have u: "user ?s = \<lparr> name = ''Ann'', role = team2 \<rparr>" "isFirstTimeGuidanceOpen ?s = False"
    by (simp_all add: store_ops Let_def initialState_def)
  from C6_persisted_subset_roundtrip [of ?s _ _ _ _ _ _ Map.empty initialState]
  have "load (save ?s Map.empty) initialState
     = initialState\<lparr> isFirstTimeGuidanceOpen := isFirstTimeGuidanceOpen ?s, user := user ?s \<rparr>"
    by blast
  then have "load (save ?s Map.empty) initialState
     = initialState\<lparr> isFirstTimeGuidanceOpen := False,
                     user := \<lparr> name = ''Ann'', role = team2 \<rparr> \<rparr>"
    by (simp only: u)
  moreover have "partialize initialState
     = JObject [(''isFirstTimeGuidanceOpen'', JBoolean True),
                (''user'', JObject [(''name'', JString ''John Doe''),
                                    (''role'', JString ''team1'')])]"
    by (simp add: partialize_def user_json_def initialState_def)
  ultimately show ?thesis
    by blast
qed

section \<open>Numeric input\<close>

lemma truthy_not_NaN: "truthy x \<Longrightarrow> x \<noteq> NaN"
  by (cases x) simp_all

lemma numericValue_not_NaN: "numericValue v prev \<noteq> NaN"
  by (auto simp: numericValue_def jor_def dest: truthy_not_NaN)

lemma numericValue_truthy: "truthy (parseFloat_String v) \<Longrightarrow> numericValue v prev = parseFloat_String v"
  by (simp add: numericValue_def jor_def)

lemma numericValue_falsy:
  "\<not> truthy (parseFloat_String v) \<Longrightarrow> numericValue v prev = (if truthy prev then prev else Fin 0)"
  by (simp add: numericValue_def jor_def)

lemma numericValue_retains:
  "\<not> truthy (parseFloat_String v) \<Longrightarrow> prev \<noteq> NaN \<Longrightarrow> numericValue v prev = prev"
  by (cases prev) (simp_all add: numericValue_falsy)

lemma no_NaN_initial: "no_NaN initialState"
  by (simp add: no_NaN_def initialState_def initialSimulationData_def)

lemma no_NaN_dispatch: "no_NaN s \<Longrightarrow> no_NaN (dispatch a s)"
proof (cases a)
  case (UpdateSimulationField f v)
  assume "no_NaN s"
  with UpdateSimulationField show ?thesis
    by (cases f) (simp_all add: no_NaN_def updateSimulationField_def Let_def numericValue_not_NaN)
qed (simp_all add: no_NaN_def store_ops Let_def initialSimulationData_def)

lemma no_NaN_run: "no_NaN s \<Longrightarrow> no_NaN (run acts s)"
  unfolding run_def
  by (induction acts arbitrary: s) (simp_all add: no_NaN_dispatch)

lemma falsy_input_retains:
  assumes "numeric_field f" and "\<not> truthy (parseFloat_String v)" and "no_NaN s"
  shows "getField (simulation (updateSimulationField f v s)) f = getField (simulation s) f"
  using assms
  by (cases f) (simp_all add: updateSimulationField_def Let_def no_NaN_def numericValue_retains)

lemma stored_is_number:
  "numeric_field f \<Longrightarrow>
   getField (simulation (updateSimulationField f v s)) f
     = VNum (numericValue v (case getField (simulation s) f of VNum p \<Rightarrow> p | VStr x \<Rightarrow> NaN))"
  by (cases f) (simp_all add: updateSimulationField_def Let_def)

lemma parseFloat_abc: "parseFloat (utf16 ''abc'') = NaN"
  by (simp add: parse_defs)

lemma parseFloat_zero: "parseFloat (utf16 ''0'') = Fin 0"
  by (simp add: parse_defs)

lemma parseFloat_Infinity: "parseFloat (utf16 ''Infinity'') = PosInf"
  by (simp add: parse_defs)

text \<open>
  C3, as amended. For every numeric field and every raw value whose parse fails
  (\<open>parseFloat\<close> gives NaN), \<open>updateSimulationField\<close>, in any state the store reaches,
  leaves the field at its previous value; \<open>abc\<close> written to an EBITDA of 10 leaves 10.
  Whatever the raw value and the state, the field holds a number afterwards, and never
  NaN. A raw value that parses to an infinity is not held back: like every number that is
  neither zero nor NaN it is stored.
\<close>

theorem C3_unparseable_input_retains:
  "(numeric_field f \<and> parseFloat_String v = NaN \<longrightarrow>
      getField (simulation (updateSimulationField f v (run acts initialState))) f
        = getField (simulation (run acts initialState)) f)
   \<and> (numeric_field f \<longrightarrow>
        (\<exists>n. getField (simulation (updateSimulationField f v s)) f = VNum n \<and> n \<noteq> NaN))
   \<and> (numeric_field f \<and> truthy (parseFloat_String v) \<longrightarrow>
        getField (simulation (updateSimulationField f v s)) f = VNum (parseFloat_String v))
   \<and> parseFloat (utf16 ''abc'') = NaN
   \<and> ebitda (simulation (updateSimulationField F_ebitda (VStr (utf16 ''abc''))
        (s\<lparr>simulation := (simulation s)\<lparr>ebitda := Fin 10\<rparr>\<rparr>))) = Fin 10"
proof -
  have "no_NaN (run acts initialState)"
    by (rule no_NaN_run [OF no_NaN_initial])
  then have "numeric_field f \<and> parseFloat_String v = NaN \<longrightarrow>
      getField (simulation (updateSimulationField f v (run acts initialState))) f
        = getField (simulation (run acts initialState)) f"
    by (simp add: falsy_input_retains)
  moreover have "numeric_field f \<longrightarrow>
        (\<exists>n. getField (simulation (updateSimulationField f v s)) f = VNum n \<and> n \<noteq> NaN)"
    using stored_is_number [of f v s] numericValue_not_NaN by auto
  moreover have "numeric_field f \<and> truthy (parseFloat_String v) \<longrightarrow>
        getField (simulation (updateSimulationField f v s)) f = VNum (parseFloat_String v)"
    by (simp add: stored_is_number numericValue_truthy)
  moreover have "ebitda (simulation (updateSimulationField F_ebitda (VStr (utf16 ''abc''))
        (s\<lparr>simulation := (simulation s)\<lparr>ebitda := Fin 10\<rparr>\<rparr>))) = Fin 10"
    by (simp add: updateSimulationField_def Let_def numericValue_def jor_def parseFloat_abc)
  ultimately show ?thesis
    by (simp add: parseFloat_abc)
qed

theorem C3_unparseable_input_retains_witness:
  "numeric_field F_ebitda \<and> parseFloat_String (VStr (utf16 ''abc'')) = NaN
   \<and> getField (simulation (updateSimulationField F_ebitda (VStr (utf16 ''abc''))
        (run [UpdateSimulationField F_ebitda (VStr (utf16 ''42''))] initialState))) F_ebitda
       = VNum (Fin 42)
   \<and> truthy (parseFloat_String (VStr (utf16 ''-2.5e1'')))
   \<and> getField (simulation (updateSimulationField F_ebitda (VStr (utf16 ''-2.5e1'')) initialState))
        F_ebitda = VNum (Fin (- 25))
   \<and> getField (simulation (updateSimulationField F_ebitda
        (VStr ([0xA0, 0xFEFF, 0x2028] @ utf16 ''5'')) initialState)) F_ebitda = VNum (Fin 5)"
proof -
  have p: "parseFloat_String (VStr (utf16 ''abc'')) = NaN"
    by (simp add: parseFloat_abc)
  have q: "parseFloat_String (VStr (utf16 ''-2.5e1'')) = Fin (- 25)"
    by (simp add: parse_defs)
  have r: "getField (simulation (run [UpdateSimulationField F_ebitda (VStr (utf16 ''42''))]
             initialState)) F_ebitda = VNum (Fin 42)"
    by (simp add: run_def updateSimulationField_def Let_def numericValue_def jor_def
        initialState_def initialSimulationData_def parse_defs)
  note c = C3_unparseable_input_retains [of F_ebitda "VStr (utf16 ''abc'')"
      "[UpdateSimulationField F_ebitda (VStr (utf16 ''42''))]" initialState]
  from c p have "getField (simulation (updateSimulationField F_ebitda (VStr (utf16 ''abc''))
        (run [UpdateSimulationField F_ebitda (VStr (utf16 ''42''))] initialState))) F_ebitda
       = getField (simulation (run [UpdateSimulationField F_ebitda (VStr (utf16 ''42''))]
             initialState)) F_ebitda"
    by simp
  with r have a: "getField (simulation (updateSimulationField F_ebitda (VStr (utf16 ''abc''))
        (run [UpdateSimulationField F_ebitda (VStr (utf16 ''42''))] initialState))) F_ebitda
       = VNum (Fin 42)"
    by simp
  note d = C3_unparseable_input_retains [of F_ebitda "VStr (utf16 ''-2.5e1'')" "[]" initialState]
  from d q have "getField (simulation (updateSimulationField F_ebitda (VStr (utf16 ''-2.5e1''))
        initialState)) F_ebitda = VNum (Fin (- 25))"
    by simp
  moreover have w: "parseFloat_String (VStr ([0xA0, 0xFEFF, 0x2028] @ utf16 ''5'')) = Fin 5"
    by (simp add: parse_defs)
  note e = C3_unparseable_input_retains
      [of F_ebitda "VStr ([0xA0, 0xFEFF, 0x2028] @ utf16 ''5'')" "[]" initialState]
  from e w have "getField (simulation (updateSimulationField F_ebitda
        (VStr ([0xA0, 0xFEFF, 0x2028] @ utf16 ''5'')) initialState)) F_ebitda = VNum (Fin 5)"
    by simp
  ultimately show ?thesis
    using a p q by simp
qed

text \<open>
  C3, as stated, fails for a raw value that parses to a non-finite number: the text
  \<open>Infinity\<close> written to the EBITDA of the initial state replaces 10 by the infinity.
\<close>

theorem C3_infinity_stored_counterexample:
  "parseFloat_String (VStr (utf16 ''Infinity'')) = PosInf
   \<and> \<not> isFinite PosInf
   \<and> ebitda (simulation initialState) = Fin 10
   \<and> ebitda (simulation (updateSimulationField F_ebitda (VStr (utf16 ''Infinity'')) initialState))
       = PosInf"
  by (simp add: parseFloat_Infinity updateSimulationField_def Let_def numericValue_def jor_def
      initialState_def initialSimulationData_def)

text \<open>
  C10. A raw value that parses to 0, such as the text \<open>0\<close> or the number 0, is falsy in
  \<open>parseFloat(...) || previous || 0\<close>: in any state the store reaches,
  \<open>updateSimulationField\<close> on a numeric field leaves the field at its previous value, so 0
  is stored only over a previous 0.
\<close>

theorem C10_zero_input_retains:
  "parseFloat_String (VStr (utf16 ''0'')) = Fin 0
   \<and> parseFloat_String (VNum (Fin 0)) = Fin 0
   \<and> (parseFloat_String v = Fin 0 \<longrightarrow>
        numericValue v prev = (if truthy prev then prev else Fin 0))
   \<and> (numeric_field f \<and> parseFloat_String v = Fin 0 \<longrightarrow>
        getField (simulation (updateSimulationField f v (run acts initialState))) f
          = getField (simulation (run acts initialState)) f
        \<and> (getField (simulation (updateSimulationField f v (run acts initialState))) f
             = VNum (Fin 0)
           \<longleftrightarrow> getField (simulation (run acts initialState)) f = VNum (Fin 0)))"
proof -
  have "no_NaN (run acts initialState)"
    by (rule no_NaN_run [OF no_NaN_initial])
  then have "numeric_field f \<and> parseFloat_String v = Fin 0 \<longrightarrow>
        getField (simulation (updateSimulationField f v (run acts initialState))) f
          = getField (simulation (run acts initialState)) f"
    by (simp add: falsy_input_retains)
  moreover have "parseFloat_String v = Fin 0 \<longrightarrow>
        numericValue v prev = (if truthy prev then prev else Fin 0)"
    by (simp add: numericValue_falsy)
  ultimately show ?thesis
    by (simp add: parseFloat_zero)
qed

theorem C10_zero_input_retains_witness:
  "numeric_field F_multiple \<and> parseFloat_String (VStr (utf16 ''0'')) = Fin 0
   \<and> getField (simulation (updateSimulationField F_multiple (VStr (utf16 ''0'')) initialState))
        F_multiple = VNum (Fin 10)
   \<and> numericValue (VNum (Fin 0)) (Fin 3) = Fin 3
   \<and> numericValue (VStr (utf16 ''0'')) (Fin 0) = Fin 0"
proof -
  note c = C10_zero_input_retains [where acts = "[]" and f = F_multiple and v = "VStr (utf16 ''0'')"]
  have i: "getField (simulation initialState) F_multiple = VNum (Fin 10)"
    by (simp add: initialState_def initialSimulationData_def)
  from c have z: "parseFloat_String (VStr (utf16 ''0'')) = Fin 0"
    by blast
  with c have "getField (simulation (updateSimulationField F_multiple (VStr (utf16 ''0''))
        (run [] initialState))) F_multiple = getField (simulation (run [] initialState)) F_multiple"
    by simp
  with i have a: "getField (simulation (updateSimulationField F_multiple (VStr (utf16 ''0''))
        initialState)) F_multiple = VNum (Fin 10)"
    by (simp add: run_def)
  from C10_zero_input_retains [where v = "VNum (Fin 0)" and prev = "Fin 3"]
  have b: "numericValue (VNum (Fin 0)) (Fin 3) = Fin 3"
    by simp
  from C10_zero_input_retains [where v = "VStr (utf16 ''0'')" and prev = "Fin 0"] z
  have "numericValue (VStr (utf16 ''0'')) (Fin 0) = Fin 0"
    by simp
  with a b z show ?thesis
    by simp
qed


section \<open>Currency format\<close>

lemma of_char_digit_char: "d < 10 \<Longrightarrow> of_char (digit_char d) = 48 + d"
  by (simp add: digit_char_def)

lemma is_decimal_digit_digit_char: "d < 10 \<Longrightarrow> is_decimal_digit (digit_char d)"
  by (simp add: is_decimal_digit_def of_char_digit_char)

lemma nat_toString_digits: "list_all is_decimal_digit (nat_toString n)"
proof (induction n rule: nat_toString.induct)
  case (1 n)
  show ?case
  proof (cases "n < 10")
    case True
    then show ?thesis
      by (simp add: nat_toString.simps [of n] is_decimal_digit_digit_char)
  next
    case False
    with 1 show ?thesis
      by (simp add: nat_toString.simps [of n] is_decimal_digit_digit_char)
  qed
qed

lemma nat_toString_nonempty: "nat_toString n \<noteq> []"
  by (simp add: nat_toString.simps [of n])

lemma digit_char_0: "digit_char 0 = CHR ''0''"
  by code_simp

lemma fixed_digits_0: "fixed_digits n 0 = nat_toString n"
  by (simp add: fixed_digits_def)

lemma fixed_digits_1:
  "fixed_digits n (Suc 0) = nat_toString (n div 10) @ ''.'' @ [digit_char (n mod 10)]"
proof (cases "n < 10")
  case True
  then have "nat_toString n = [digit_char n]" "nat_toString (n div 10) = ''0''"
    by (simp_all add: nat_toString.simps [of n] nat_toString.simps [of 0] digit_char_0)
  with True show ?thesis
    by (simp add: fixed_digits_def padStart_def)
next
  case False
  then have n: "nat_toString n = nat_toString (n div 10) @ [digit_char (n mod 10)]"
    by (simp add: nat_toString.simps [of n])
  have "Suc 0 \<le> length (nat_toString (n div 10))"
    using nat_toString_nonempty [of "n div 10"] by (simp add: Suc_le_eq)
  then show ?thesis
    by (simp add: fixed_digits_def padStart_def n)
qed

lemma toFixed_small:
  "0 \<le> x \<Longrightarrow> x < 10 ^ 21 \<Longrightarrow>
   toFixed e (Fin x) f = fixed_digits (round_half_up (x * 10 ^ f)) f"
  by (simp add: Let_def)

text \<open>A quotient up to \<open>10\<^sup>2\<^sup>1 - 120000\<close> stays below \<open>10\<^sup>2\<^sup>1\<close> when rounded.\<close>

lemma quotient_rounded:
  assumes "0 \<le> y" and "y \<le> 10 ^ 21 - 120000"
  shows "to_double y = Fin (round_double y)" and "0 \<le> round_double y"
    and "round_double y < 10 ^ 21"
proof -
  show n: "0 \<le> round_double y"
    using assms(1) by (rule round_double_nonneg)
  have "y / 2 ^ 53 \<le> (10 ^ 21 - 120000) / 2 ^ 53"
    using assms(2) by (simp add: divide_right_mono)
  also have "\<dots> < (111023 :: real)"
    by simp
  finally have "y + y / 2 ^ 53 + 1 / 2 < 10 ^ 21"
    using assms(2) by simp
  with round_double_le [OF assms(1)] show u: "round_double y < 10 ^ 21"
    by simp
  have "(10 :: real) ^ 21 < 2 ^ 1024"
    by simp
  with n u have "\<bar>round_double y\<bar> < 2 ^ 1024"
    by simp
  then show "to_double y = Fin (round_double y)"
    by (intro to_double_Fin) simp_all
qed

text \<open>
  C9, as amended. For every finite amount \<open>a\<close> from 0 to 999999999999999879147136483328,
  the largest binary64 value below \<open>10\<^sup>3\<^sup>0\<close>, \<open>formatCurrency\<close> returns: from \<open>10\<^sup>9\<close> on, a
  dollar sign, the quotient of \<open>a\<close> by \<open>10\<^sup>9\<close> (as the division rounds it to binary64)
  rounded to one decimal, as integer digits, a point and one digit, and \<open>B\<close>; from \<open>10\<^sup>6\<close>
  on, a dollar sign, the quotient by \<open>10\<^sup>6\<close> rounded to an integer and the word \<open>million\<close>;
  from \<open>10\<^sup>3\<close> on, a dollar sign, the quotient by \<open>10\<^sup>3\<close> rounded to an integer and \<open>K\<close>;
  below, a dollar sign and \<open>a\<close> rounded to an integer. The rounded integers print as
  decimal digits only. The amount 300 prints as \<open>$300\<close>.
\<close>

theorem C9_formatCurrency:
  assumes "0 \<le> a" and "a \<le> 999999999999999879147136483328"
  shows
  "(1000000000 \<le> a \<longrightarrow>
      formatCurrency e (Fin a) =
        ''$'' @ nat_toString (round_half_up (round_double (a / 1000000000) * 10) div 10)
          @ ''.''
          @ [digit_char (round_half_up (round_double (a / 1000000000) * 10) mod 10)]
          @ ''B'')
   \<and> (1000000 \<le> a \<and> a < 1000000000 \<longrightarrow>
      formatCurrency e (Fin a) =
        ''$'' @ nat_toString (round_half_up (round_double (a / 1000000))) @ '' million'')
   \<and> (1000 \<le> a \<and> a < 1000000 \<longrightarrow>
      formatCurrency e (Fin a) =
        ''$'' @ nat_toString (round_half_up (round_double (a / 1000))) @ ''K'')
   \<and> (a < 1000 \<longrightarrow> formatCurrency e (Fin a) = ''$'' @ nat_toString (round_half_up a))
   \<and> list_all is_decimal_digit (nat_toString k) \<and> nat_toString k \<noteq> []
   \<and> is_decimal_digit (digit_char (k mod 10))
   \<and> formatCurrency e (Fin 300) = ''$300''"
proof -
  have B: "formatCurrency e (Fin a) =
        ''$'' @ nat_toString (round_half_up (round_double (a / 1000000000) * 10) div 10)
          @ ''.''
          @ [digit_char (round_half_up (round_double (a / 1000000000) * 10) mod 10)]
          @ ''B''"
    if "1000000000 \<le> a"
  proof -
    from that assms have r: "0 \<le> a / 1000000000" "a / 1000000000 \<le> 10 ^ 21 - 120000"
      by simp_all
    note q = quotient_rounded [OF r]
    have "jdiv (Fin a) (Fin 1000000000) = Fin (round_double (a / 1000000000))"
      by (simp add: q(1))
    moreover have "toFixed e (Fin (round_double (a / 1000000000))) 1
        = fixed_digits (round_half_up (round_double (a / 1000000000) * 10 ^ 1)) 1"
      using q(2,3) by (rule toFixed_small)
    ultimately show ?thesis
      using that by (simp add: formatCurrency_def jge_def fixed_digits_1)
  qed
  have M: "formatCurrency e (Fin a) =
        ''$'' @ nat_toString (round_half_up (round_double (a / 1000000))) @ '' million''"
    if "1000000 \<le> a" "a < 1000000000"
  proof -
    from that have r: "0 \<le> a / 1000000" "a / 1000000 \<le> 10 ^ 21 - 120000"
      by simp_all
    note q = quotient_rounded [OF r]
    have "jdiv (Fin a) (Fin 1000000) = Fin (round_double (a / 1000000))"
      by (simp add: q(1))
    moreover have "toFixed e (Fin (round_double (a / 1000000))) 0
        = fixed_digits (round_half_up (round_double (a / 1000000) * 10 ^ 0)) 0"
      using q(2,3) by (rule toFixed_small)
    ultimately show ?thesis
      using that by (simp add: formatCurrency_def jge_def fixed_digits_0)
  qed
  have K: "formatCurrency e (Fin a) =
        ''$'' @ nat_toString (round_half_up (round_double (a / 1000))) @ ''K''"
    if "1000 \<le> a" "a < 1000000"
  proof -
    from that have r: "0 \<le> a / 1000" "a / 1000 \<le> 10 ^ 21 - 120000"
      by simp_all
    note q = quotient_rounded [OF r]
    have "jdiv (Fin a) (Fin 1000) = Fin (round_double (a / 1000))"
      by (simp add: q(1))
    moreover have "toFixed e (Fin (round_double (a / 1000))) 0
        = fixed_digits (round_half_up (round_double (a / 1000) * 10 ^ 0)) 0"
      using q(2,3) by (rule toFixed_small)
    ultimately show ?thesis
      using that by (simp add: formatCurrency_def jge_def fixed_digits_0)
  qed
  have U: "formatCurrency e (Fin a) = ''$'' @ nat_toString (round_half_up a)"
    if "a < 1000"
  proof -
    from that assms have "toFixed e (Fin a) 0 = fixed_digits (round_half_up (a * 10 ^ 0)) 0"
      by (intro toFixed_small) simp_all
    then show ?thesis
      using that by (simp add: formatCurrency_def jge_def fixed_digits_0)
  qed
  have d: "is_decimal_digit (digit_char (k mod 10))"
    by (simp add: is_decimal_digit_digit_char)
  have "round_half_up 300 = 300"
    by (simp add: round_half_up_def)
  moreover have "nat_toString 300 = ''300''"
    by code_simp
  moreover have "formatCurrency e (Fin 300) = ''$'' @ nat_toString (round_half_up 300)"
    by (simp add: formatCurrency_def jge_def fixed_digits_0)
  ultimately have "formatCurrency e (Fin 300) = ''$300''"
    by simp
  with B M K U d show ?thesis
    by (simp add: nat_toString_digits nat_toString_nonempty)
qed

theorem C9_formatCurrency_witness:
  "formatCurrency (\<lambda>x. ''1e+21'') (Fin 2500000000) = ''$2.5B''
   \<and> formatCurrency (\<lambda>x. ''1e+21'') (Fin 1150000000) = ''$1.1B''
   \<and> formatCurrency (\<lambda>x. ''1e+21'') (Fin 40000000) = ''$40 million''
   \<and> formatCurrency (\<lambda>x. ''1e+21'') (Fin 1500) = ''$2K''
   \<and> formatCurrency (\<lambda>x. ''1e+21'') (Fin 300) = ''$300''"
proof -
  define q :: real where "q = 2589569785738035 / 2 ^ 51"
  have d: "round_double (5 / 2) = 5 / 2" "round_double (3 / 2) = 3 / 2"
    using round_double_eval [of 1 "5 / 2"] round_double_eval [of 0 "3 / 2"]
    by (simp_all add: round_even_def)
  have d40: "round_double 40 = 40"
    using round_double_of_int [of 40] by simp
  have dq: "round_double (23 / 20) = q"
    using round_double_eval [of 0 "23 / 20"] by (simp add: round_even_def q_def)
  have r: "round_half_up 25 = 25" "round_half_up 40 = 40" "round_half_up (3 / 2) = 2"
    "round_half_up (q * 10) = 11"
    by (simp_all add: round_half_up_def q_def)
  have s: "nat_toString 2 = ''2''" "digit_char 5 = CHR ''5''" "nat_toString 40 = ''40''"
    "nat_toString (Suc 0) = ''1''" "digit_char (Suc 0) = CHR ''1''"
    by code_simp+
  from C9_formatCurrency [of 2500000000 "\<lambda>x. ''1e+21''" 0]
  have "formatCurrency (\<lambda>x. ''1e+21'') (Fin 2500000000) = ''$2.5B''"
    by (simp add: d r s)
  moreover from C9_formatCurrency [of 1150000000 "\<lambda>x. ''1e+21''" 0]
  have "formatCurrency (\<lambda>x. ''1e+21'') (Fin 1150000000) = ''$1.1B''"
    by (simp add: dq r s)
  moreover from C9_formatCurrency [of 40000000 "\<lambda>x. ''1e+21''" 0]
  have "formatCurrency (\<lambda>x. ''1e+21'') (Fin 40000000) = ''$40 million''"
    by (simp add: d40 r s)
  moreover from C9_formatCurrency [of 1500 "\<lambda>x. ''1e+21''" 0]
  have "formatCurrency (\<lambda>x. ''1e+21'') (Fin 1500) = ''$2K''"
    by (simp add: d r s)
  moreover have "(0::real) \<le> 300" and "(300::real) \<le> 999999999999999879147136483328"
    by simp_all
  from C9_formatCurrency [where a = 300 and e = "\<lambda>x. ''1e+21''" and k = 0, OF this]
  have "formatCurrency (\<lambda>x. ''1e+21'') (Fin 300) = ''$300''"
    by blast
  ultimately show ?thesis
    by blast
qed

text \<open>
  C9, as stated for every non-negative amount, fails where \<open>toFixed\<close> leaves the fixed
  notation: the infinite amount, which is at least \<open>10\<^sup>9\<close>, prints as \<open>$InfinityB\<close>, with no
  decimal.
\<close>

theorem C9_infinite_amount_counterexample:
  "jle (Fin 0) PosInf \<and> jge PosInf (Fin 1000000000)
   \<and> formatCurrency (\<lambda>x. ''1e+21'') PosInf = ''$InfinityB''
   \<and> amount (valuation (handleValueChange F_ebitda (VStr (utf16 ''Infinity'')) initialState))
       = PosInf"
  by (simp add: formatCurrency_def jge_def handleValueChange_def updateSimulationField_def
      Let_def numericValue_def jor_def parseFloat_Infinity calculateValuation_def
      initialState_def initialSimulationData_def)


end
